theory Spec2Isabelle
  imports Main
begin

section \<open>The curated export lists\<close>

text \<open>
  \<^verbatim>\<open>cli/jl_exports.h\<close> has no run-time algorithm: it is a sequence of X-macro
  expansions over the curated lists of \<^verbatim>\<open>jl_exported_data.inc\<close> and
  \<^verbatim>\<open>jl_exported_funcs.inc\<close>. The embedding is the expansion itself, a function from
  the build (the contents of the lists and the two preprocessor switches the header
  tests) to the top-level declarations and the four static tables the header emits.
\<close>

type_synonym ident = string

text \<open>
  The two \<^verbatim>\<open>.inc\<close> files are not part of the sources at hand, so the contents of
  every list are parameters of the build, as are \<^verbatim>\<open>_OS_WINDOWS_\<close> and
  \<^verbatim>\<open>HAVE_SSP\<close>. An entry of a data-symbol list is a name with its declared
  type, written \<^verbatim>\<open>XX(name, type)\<close>; an entry of every other list is a bare name.
\<close>

record build =
  exported_data_pointers :: "ident list"
  exported_data_pointers_win :: "ident list"
  exported_data_symbols :: "(ident \<times> string) list"
  exported_data_symbols_win :: "(ident \<times> string) list"
  runtime_exported_funcs :: "ident list"
  runtime_exported_funcs_win :: "ident list"
  runtime_exported_func_addrs :: "ident list"
  codegen_exported_funcs :: "ident list"
  OS_WINDOWS :: bool
  HAVE_SSP :: bool

text \<open>
  Modelled from the spec: the list macros themselves are defined in the missing
  \<^verbatim>\<open>.inc\<close> files. Each is an X-macro, \<^verbatim>\<open>LIST(XX)\<close> expanding to
  \<^verbatim>\<open>XX(e1) XX(e2) ...\<close> over its entries, "consumed verbatim, order-preserving".
  The argument \<open>XX\<close> gives the tokens one entry expands to.
\<close>

definition JL_EXPORTED_DATA_POINTERS :: "build \<Rightarrow> (ident \<Rightarrow> 'a list) \<Rightarrow> 'a list" where
  "JL_EXPORTED_DATA_POINTERS b XX = concat (map XX (exported_data_pointers b))"

definition JL_EXPORTED_DATA_POINTERS_WIN :: "build \<Rightarrow> (ident \<Rightarrow> 'a list) \<Rightarrow> 'a list" where
  "JL_EXPORTED_DATA_POINTERS_WIN b XX = concat (map XX (exported_data_pointers_win b))"

definition JL_EXPORTED_DATA_SYMBOLS :: "build \<Rightarrow> (ident \<Rightarrow> string \<Rightarrow> 'a list) \<Rightarrow> 'a list" where
  "JL_EXPORTED_DATA_SYMBOLS b XX = concat (map (case_prod XX) (exported_data_symbols b))"

definition JL_EXPORTED_DATA_SYMBOLS_WIN :: "build \<Rightarrow> (ident \<Rightarrow> string \<Rightarrow> 'a list) \<Rightarrow> 'a list" where
  "JL_EXPORTED_DATA_SYMBOLS_WIN b XX = concat (map (case_prod XX) (exported_data_symbols_win b))"

definition JL_RUNTIME_EXPORTED_FUNCS :: "build \<Rightarrow> (ident \<Rightarrow> 'a list) \<Rightarrow> 'a list" where
  "JL_RUNTIME_EXPORTED_FUNCS b XX = concat (map XX (runtime_exported_funcs b))"

definition JL_RUNTIME_EXPORTED_FUNCS_WIN :: "build \<Rightarrow> (ident \<Rightarrow> 'a list) \<Rightarrow> 'a list" where
  "JL_RUNTIME_EXPORTED_FUNCS_WIN b XX = concat (map XX (runtime_exported_funcs_win b))"

definition JL_RUNTIME_EXPORTED_FUNC_ADDRS :: "build \<Rightarrow> (ident \<Rightarrow> 'a list) \<Rightarrow> 'a list" where
  "JL_RUNTIME_EXPORTED_FUNC_ADDRS b XX = concat (map XX (runtime_exported_func_addrs b))"

definition JL_CODEGEN_EXPORTED_FUNCS :: "build \<Rightarrow> (ident \<Rightarrow> 'a list) \<Rightarrow> 'a list" where
  "JL_CODEGEN_EXPORTED_FUNCS b XX = concat (map XX (codegen_exported_funcs b))"


section \<open>Top-level declarations\<close>

text \<open>
  Modelled from the spec: \<^verbatim>\<open>JL_DLLEXPORT\<close> and \<^verbatim>\<open>JL_HIDDEN\<close> are macros
  of another header. The first marks a symbol the public library exports, the second
  one with hidden visibility, which the library does not export.
\<close>

datatype attr = JL_DLLEXPORT | JL_HIDDEN

fun exported :: "attr \<Rightarrow> bool" where
  "exported JL_DLLEXPORT = True"
| "exported JL_HIDDEN = False"

text \<open>
  The types the header writes: \<^verbatim>\<open>const void *\<close>, the declared type of a data
  symbol (kept as its text), \<^verbatim>\<open>size_t\<close> and \<^verbatim>\<open>anonfunc *\<close>.
\<close>

datatype ctype = ConstVoidPtr | DeclaredType string | SizeT | AnonfuncPtr

text \<open>
  An object is declared without an initializer, with \<^verbatim>\<open>= NULL\<close>, or with
  \<^verbatim>\<open>= (anonfunc*)&name\<close>.
\<close>

datatype initializer = NoInit | InitNULL | InitAddrOf ident

text \<open>
  A declaration is an object \<^verbatim>\<open>attr type name [= init];\<close>, a function
  \<^verbatim>\<open>attr void [NTAPI] name(void);\<close> (the flag says whether \<^verbatim>\<open>NTAPI\<close> is
  written), or the one \<^verbatim>\<open>typedef void (anonfunc)(void);\<close>.
\<close>

datatype decl =
    Var attr ctype ident initializer
  | Func attr bool ident
  | TypedefAnonfunc

fun declares :: "decl \<Rightarrow> ident" where
  "declares (Var a t n i) = n"
| "declares (Func a w n) = n"
| "declares TypedefAnonfunc = ''anonfunc''"

fun visibility :: "decl \<Rightarrow> attr option" where
  "visibility (Var a t n i) = Some a"
| "visibility (Func a w n) = Some a"
| "visibility TypedefAnonfunc = None"

fun initial_value :: "decl \<Rightarrow> initializer option" where
  "initial_value (Var a t n i) = Some i"
| "initial_value (Func a w n) = None"
| "initial_value TypedefAnonfunc = None"

text \<open>The declarations of a translation unit that declare a given identifier, in order.\<close>

fun decls_of :: "ident \<Rightarrow> decl list \<Rightarrow> decl list" where
  "decls_of n [] = []"
| "decls_of n (d # ds) = (if declares d = n then d # decls_of n ds else decls_of n ds)"


subsection \<open>Lines 8 to 26: data\<close>

text \<open>\<^verbatim>\<open>#define XX(name)    JL_DLLEXPORT const void * name;\<close>\<close>

definition XX_data_pointer :: "ident \<Rightarrow> decl list" where
  "XX_data_pointer name = [Var JL_DLLEXPORT ConstVoidPtr name NoInit]"

definition data_pointer_decls :: "build \<Rightarrow> decl list" where
  "data_pointer_decls b =
     JL_EXPORTED_DATA_POINTERS b XX_data_pointer @
     (if OS_WINDOWS b then JL_EXPORTED_DATA_POINTERS_WIN b XX_data_pointer else [])"

text \<open>\<^verbatim>\<open>#define XX(name, type)    JL_DLLEXPORT type name;\<close>\<close>

definition XX_data_symbol :: "ident \<Rightarrow> string \<Rightarrow> decl list" where
  "XX_data_symbol name type = [Var JL_DLLEXPORT (DeclaredType type) name NoInit]"

definition data_symbol_decls :: "build \<Rightarrow> decl list" where
  "data_symbol_decls b =
     JL_EXPORTED_DATA_SYMBOLS b XX_data_symbol @
     (if OS_WINDOWS b then JL_EXPORTED_DATA_SYMBOLS_WIN b XX_data_symbol else [])"

text \<open>
  \<^verbatim>\<open>#ifndef HAVE_SSP
  JL_DLLEXPORT size_t __stack_chk_guard;
  #endif\<close>
\<close>

definition stack_chk_guard_decl :: "build \<Rightarrow> decl list" where
  "stack_chk_guard_decl b =
     (if HAVE_SSP b then [] else [Var JL_DLLEXPORT SizeT ''__stack_chk_guard'' NoInit])"


subsection \<open>Lines 28 to 38: the exported functions, without their types\<close>

text \<open>\<^verbatim>\<open>#define XX(name)    JL_DLLEXPORT void name(void);\<close>\<close>

definition XX_func :: "ident \<Rightarrow> decl list" where
  "XX_func name = [Func JL_DLLEXPORT False name]"

definition func_decls :: "build \<Rightarrow> decl list" where
  "func_decls b =
     [TypedefAnonfunc] @
     JL_RUNTIME_EXPORTED_FUNCS b XX_func @
     (if OS_WINDOWS b
      then JL_RUNTIME_EXPORTED_FUNCS_WIN b XX_func @
           [Func JL_DLLEXPORT True ''__julia_personality'']
      else []) @
     JL_CODEGEN_EXPORTED_FUNCS b XX_func"


subsection \<open>Lines 40 to 52: the holders of the function addresses\<close>

text \<open>
  \<^verbatim>\<open>#define XX(name)    JL_HIDDEN anonfunc * name##_addr = (anonfunc*)&name;\<close>
  The token paste \<^verbatim>\<open>name##_addr\<close> is the identifier \<open>name @ ''_addr''\<close>.
\<close>

definition XX_holder :: "ident \<Rightarrow> decl list" where
  "XX_holder name = [Var JL_HIDDEN AnonfuncPtr (name @ ''_addr'') (InitAddrOf name)]"

definition holder_defs :: "build \<Rightarrow> decl list" where
  "holder_defs b =
     JL_RUNTIME_EXPORTED_FUNCS b XX_holder @
     (if OS_WINDOWS b
      then JL_RUNTIME_EXPORTED_FUNCS_WIN b XX_holder @
           [Var JL_HIDDEN AnonfuncPtr ''__julia_personality_addr'' InitNULL]
      else []) @
     JL_CODEGEN_EXPORTED_FUNCS b XX_holder"

text \<open>\<^verbatim>\<open>#define XX(name)    JL_DLLEXPORT anonfunc * name##_addr;\<close>\<close>

definition XX_addr_slot :: "ident \<Rightarrow> decl list" where
  "XX_addr_slot name = [Var JL_DLLEXPORT AnonfuncPtr (name @ ''_addr'') NoInit]"

definition addr_slot_decls :: "build \<Rightarrow> decl list" where
  "addr_slot_decls b = JL_RUNTIME_EXPORTED_FUNC_ADDRS b XX_addr_slot"

text \<open>Everything the header declares before its tables, in the order of the file.\<close>

definition translation_unit :: "build \<Rightarrow> decl list" where
  "translation_unit b =
     data_pointer_decls b @ data_symbol_decls b @ stack_chk_guard_decl b @
     func_decls b @ holder_defs b @ addr_slot_decls b"


section \<open>The name and address tables\<close>

text \<open>
  The four tables are \<^verbatim>\<open>static\<close> arrays. An element of a name table is a string
  literal or \<^verbatim>\<open>NULL\<close>, here \<open>Some s\<close> or \<open>None\<close>; an element of an address
  table is \<^verbatim>\<open>&slot\<close> for a holder \<open>slot\<close>, or \<^verbatim>\<open>NULL\<close>.
\<close>

datatype slot_addr = AddrOfSlot ident

text \<open>\<^verbatim>\<open>#define XX(name)    #name,\<close>\<close>

definition XX_name :: "ident \<Rightarrow> string option list" where
  "XX_name name = [Some name]"

definition jl_runtime_exported_func_names :: "build \<Rightarrow> string option list" where
  "jl_runtime_exported_func_names b =
     JL_RUNTIME_EXPORTED_FUNCS b XX_name @
     (if OS_WINDOWS b
      then JL_RUNTIME_EXPORTED_FUNCS_WIN b XX_name @ [Some ''__julia_personality@16'']
      else []) @
     JL_RUNTIME_EXPORTED_FUNC_ADDRS b XX_name @
     [None]"

text \<open>
  \<^verbatim>\<open>#define XX(name)    #name"_impl",\<close>: the two adjacent literals are one string.
\<close>

definition XX_impl_name :: "ident \<Rightarrow> string option list" where
  "XX_impl_name name = [Some (name @ ''_impl'')]"

definition jl_codegen_exported_func_names :: "build \<Rightarrow> string option list" where
  "jl_codegen_exported_func_names b = JL_CODEGEN_EXPORTED_FUNCS b XX_impl_name @ [None]"

text \<open>\<^verbatim>\<open>#define XX(name)    &name##_addr,\<close>\<close>

definition XX_addr :: "ident \<Rightarrow> slot_addr option list" where
  "XX_addr name = [Some (AddrOfSlot (name @ ''_addr''))]"

definition jl_runtime_exported_func_addrs :: "build \<Rightarrow> slot_addr option list" where
  "jl_runtime_exported_func_addrs b =
     JL_RUNTIME_EXPORTED_FUNCS b XX_addr @
     (if OS_WINDOWS b
      then JL_RUNTIME_EXPORTED_FUNCS_WIN b XX_addr @
           [Some (AddrOfSlot ''__julia_personality_addr'')]
      else []) @
     JL_RUNTIME_EXPORTED_FUNC_ADDRS b XX_addr @
     [None]"

definition jl_codegen_exported_func_addrs :: "build \<Rightarrow> slot_addr option list" where
  "jl_codegen_exported_func_addrs b = JL_CODEGEN_EXPORTED_FUNCS b XX_addr @ [None]"


section \<open>The identifiers the lists declare\<close>

text \<open>
  The identifiers that lines 8 to 38 declare from the lists: the data pointers, the
  data symbols and the functions, with the Windows lists and
  \<^verbatim>\<open>__julia_personality\<close> when \<^verbatim>\<open>_OS_WINDOWS_\<close> is defined.
\<close>

definition data_and_func_names :: "build \<Rightarrow> ident list" where
  "data_and_func_names b =
     exported_data_pointers b @
     (if OS_WINDOWS b then exported_data_pointers_win b else []) @
     map fst (exported_data_symbols b) @
     (if OS_WINDOWS b then map fst (exported_data_symbols_win b) else []) @
     runtime_exported_funcs b @
     (if OS_WINDOWS b then runtime_exported_funcs_win b @ [''__julia_personality''] else []) @
     codegen_exported_funcs b"

text \<open>
  The names that lines 41 to 47 give a holder: for each of them the header defines the
  identifier \<open>name_addr\<close> there.
\<close>

definition holder_names :: "build \<Rightarrow> ident list" where
  "holder_names b =
     runtime_exported_funcs b @
     (if OS_WINDOWS b then runtime_exported_funcs_win b @ [''__julia_personality''] else []) @
     codegen_exported_funcs b"


section \<open>The suffix of the code generator's names\<close>

text \<open>Whether a string ends in \<^verbatim>\<open>_impl\<close>, the five characters line 66 appends.\<close>

fun has_impl_suffix :: "string \<Rightarrow> bool" where
  "has_impl_suffix s = (5 \<le> length s \<and> drop (length s - 5) s = ''_impl'')"


section \<open>Two concrete builds\<close>

text \<open>
  A small build for each platform, used to run the expansion on concrete lists. Neither
  toolchain supplies the stack guard.
\<close>

definition posix_build :: build where
  "posix_build = \<lparr>
     exported_data_pointers = [''jl_true'', ''jl_false''],
     exported_data_pointers_win = [''jl_dl_handle''],
     exported_data_symbols = [(''jl_n_threads'', ''int'')],
     exported_data_symbols_win = [(''jl_crt_fd'', ''int'')],
     runtime_exported_funcs = [''jl_gc_collect'', ''jl_alloc_string''],
     runtime_exported_funcs_win = [''jl_setjmp''],
     runtime_exported_func_addrs = [''jl_box_fast''],
     codegen_exported_funcs = [''jl_dump_llvm_asm'', ''jl_init_codegen''],
     OS_WINDOWS = False,
     HAVE_SSP = False \<rparr>"

definition windows_build :: build where
  "windows_build = posix_build \<lparr> OS_WINDOWS := True \<rparr>"


section \<open>The expansion of a list, entry by entry\<close>

lemma concat_map_single: "concat (map (\<lambda>x. [f x]) xs) = map f xs"
  by (induction xs) simp_all

lemma runtime_funcs_expand [simp]:
  "JL_RUNTIME_EXPORTED_FUNCS b XX_holder =
     map (\<lambda>n. Var JL_HIDDEN AnonfuncPtr (n @ ''_addr'') (InitAddrOf n)) (runtime_exported_funcs b)"
  "JL_RUNTIME_EXPORTED_FUNCS b XX_func = map (Func JL_DLLEXPORT False) (runtime_exported_funcs b)"
  "JL_RUNTIME_EXPORTED_FUNCS b XX_name = map Some (runtime_exported_funcs b)"
  "JL_RUNTIME_EXPORTED_FUNCS b XX_addr =
     map (\<lambda>n. Some (AddrOfSlot (n @ ''_addr''))) (runtime_exported_funcs b)"
  unfolding JL_RUNTIME_EXPORTED_FUNCS_def XX_holder_def XX_func_def XX_name_def XX_addr_def
  by (rule concat_map_single)+

lemma runtime_funcs_win_expand [simp]:
  "JL_RUNTIME_EXPORTED_FUNCS_WIN b XX_holder =
     map (\<lambda>n. Var JL_HIDDEN AnonfuncPtr (n @ ''_addr'') (InitAddrOf n)) (runtime_exported_funcs_win b)"
  "JL_RUNTIME_EXPORTED_FUNCS_WIN b XX_func = map (Func JL_DLLEXPORT False) (runtime_exported_funcs_win b)"
  "JL_RUNTIME_EXPORTED_FUNCS_WIN b XX_name = map Some (runtime_exported_funcs_win b)"
  "JL_RUNTIME_EXPORTED_FUNCS_WIN b XX_addr =
     map (\<lambda>n. Some (AddrOfSlot (n @ ''_addr''))) (runtime_exported_funcs_win b)"
  unfolding JL_RUNTIME_EXPORTED_FUNCS_WIN_def XX_holder_def XX_func_def XX_name_def XX_addr_def
  by (rule concat_map_single)+

lemma runtime_func_addrs_expand [simp]:
  "JL_RUNTIME_EXPORTED_FUNC_ADDRS b XX_addr_slot =
     map (\<lambda>n. Var JL_DLLEXPORT AnonfuncPtr (n @ ''_addr'') NoInit) (runtime_exported_func_addrs b)"
  "JL_RUNTIME_EXPORTED_FUNC_ADDRS b XX_name = map Some (runtime_exported_func_addrs b)"
  "JL_RUNTIME_EXPORTED_FUNC_ADDRS b XX_addr =
     map (\<lambda>n. Some (AddrOfSlot (n @ ''_addr''))) (runtime_exported_func_addrs b)"
  unfolding JL_RUNTIME_EXPORTED_FUNC_ADDRS_def XX_addr_slot_def XX_name_def XX_addr_def
  by (rule concat_map_single)+

lemma codegen_funcs_expand [simp]:
  "JL_CODEGEN_EXPORTED_FUNCS b XX_holder =
     map (\<lambda>n. Var JL_HIDDEN AnonfuncPtr (n @ ''_addr'') (InitAddrOf n)) (codegen_exported_funcs b)"
  "JL_CODEGEN_EXPORTED_FUNCS b XX_func = map (Func JL_DLLEXPORT False) (codegen_exported_funcs b)"
  "JL_CODEGEN_EXPORTED_FUNCS b XX_impl_name = map (\<lambda>n. Some (n @ ''_impl'')) (codegen_exported_funcs b)"
  "JL_CODEGEN_EXPORTED_FUNCS b XX_addr =
     map (\<lambda>n. Some (AddrOfSlot (n @ ''_addr''))) (codegen_exported_funcs b)"
  unfolding JL_CODEGEN_EXPORTED_FUNCS_def XX_holder_def XX_func_def XX_impl_name_def XX_addr_def
  by (rule concat_map_single)+

lemma concat_map_single_pair: "concat (map (\<lambda>(x, y). [f x y]) xs) = map (\<lambda>(x, y). f x y) xs"
  by (induction xs) auto

lemma data_pointers_expand [simp]:
  "JL_EXPORTED_DATA_POINTERS b XX_data_pointer =
     map (\<lambda>n. Var JL_DLLEXPORT ConstVoidPtr n NoInit) (exported_data_pointers b)"
  "JL_EXPORTED_DATA_POINTERS_WIN b XX_data_pointer =
     map (\<lambda>n. Var JL_DLLEXPORT ConstVoidPtr n NoInit) (exported_data_pointers_win b)"
  unfolding JL_EXPORTED_DATA_POINTERS_def JL_EXPORTED_DATA_POINTERS_WIN_def XX_data_pointer_def
  by (rule concat_map_single)+

lemma data_symbols_expand [simp]:
  "JL_EXPORTED_DATA_SYMBOLS b XX_data_symbol =
     map (\<lambda>(n, t). Var JL_DLLEXPORT (DeclaredType t) n NoInit) (exported_data_symbols b)"
  "JL_EXPORTED_DATA_SYMBOLS_WIN b XX_data_symbol =
     map (\<lambda>(n, t). Var JL_DLLEXPORT (DeclaredType t) n NoInit) (exported_data_symbols_win b)"
  unfolding JL_EXPORTED_DATA_SYMBOLS_def JL_EXPORTED_DATA_SYMBOLS_WIN_def XX_data_symbol_def
  by (rule concat_map_single_pair)+


section \<open>The tables as lists\<close>

lemma runtime_names_list:
  "jl_runtime_exported_func_names b =
     map Some (runtime_exported_funcs b) @
     (if OS_WINDOWS b
      then map Some (runtime_exported_funcs_win b) @ [Some ''__julia_personality@16'']
      else []) @
     map Some (runtime_exported_func_addrs b) @ [None]"
  by (simp add: jl_runtime_exported_func_names_def)

lemma runtime_addrs_list:
  "jl_runtime_exported_func_addrs b =
     map (\<lambda>n. Some (AddrOfSlot (n @ ''_addr''))) (runtime_exported_funcs b) @
     (if OS_WINDOWS b
      then map (\<lambda>n. Some (AddrOfSlot (n @ ''_addr''))) (runtime_exported_funcs_win b) @
           [Some (AddrOfSlot ''__julia_personality_addr'')]
      else []) @
     map (\<lambda>n. Some (AddrOfSlot (n @ ''_addr''))) (runtime_exported_func_addrs b) @ [None]"
  by (simp add: jl_runtime_exported_func_addrs_def)

lemma codegen_names_list:
  "jl_codegen_exported_func_names b =
     map (\<lambda>n. Some (n @ ''_impl'')) (codegen_exported_funcs b) @ [None]"
  by (simp add: jl_codegen_exported_func_names_def)

lemma codegen_addrs_list:
  "jl_codegen_exported_func_addrs b =
     map (\<lambda>n. Some (AddrOfSlot (n @ ''_addr''))) (codegen_exported_funcs b) @ [None]"
  by (simp add: jl_codegen_exported_func_addrs_def)

lemma holder_defs_list:
  "holder_defs b =
     map (\<lambda>n. Var JL_HIDDEN AnonfuncPtr (n @ ''_addr'') (InitAddrOf n)) (runtime_exported_funcs b) @
     (if OS_WINDOWS b
      then map (\<lambda>n. Var JL_HIDDEN AnonfuncPtr (n @ ''_addr'') (InitAddrOf n))
             (runtime_exported_funcs_win b) @
           [Var JL_HIDDEN AnonfuncPtr ''__julia_personality_addr'' InitNULL]
      else []) @
     map (\<lambda>n. Var JL_HIDDEN AnonfuncPtr (n @ ''_addr'') (InitAddrOf n)) (codegen_exported_funcs b)"
  by (simp add: holder_defs_def)

lemma holder_in_unit: "d \<in> set (holder_defs b) \<Longrightarrow> d \<in> set (translation_unit b)"
  by (simp add: translation_unit_def)

lemma set_decls_of: "set (decls_of n ds) = {d \<in> set ds. declares d = n}"
  by (induction ds) auto

lemma addr_suffix_not_guard: "n @ ''_addr'' \<noteq> ''__stack_chk_guard''"
proof
  assume "n @ ''_addr'' = ''__stack_chk_guard''"
  then have "last (n @ ''_addr'') = last ''__stack_chk_guard''"
    by (rule arg_cong)
  then show False by simp
qed

lemma holder_defs_hidden: "d \<in> set (holder_defs b) \<Longrightarrow> visibility d = Some JL_HIDDEN"
  by (auto simp: holder_defs_list split: if_splits)

lemma holder_defs_not_guard: "d \<in> set (holder_defs b) \<Longrightarrow> declares d \<noteq> ''__stack_chk_guard''"
  by (auto simp: holder_defs_list addr_suffix_not_guard split: if_splits)

lemma outside_holders_exported:
  "d \<in> set (data_pointer_decls b @ data_symbol_decls b @ stack_chk_guard_decl b @ addr_slot_decls b)
     \<Longrightarrow> visibility d = Some JL_DLLEXPORT"
  by (auto simp: data_pointer_decls_def data_symbol_decls_def stack_chk_guard_decl_def
        addr_slot_decls_def split: if_splits)

lemma func_decls_exported:
  "d \<in> set (func_decls b) \<Longrightarrow> visibility d = Some JL_DLLEXPORT \<or> d = TypedefAnonfunc"
  by (auto simp: func_decls_def split: if_splits)


lemma addr_suffix_not_anonfunc: "n @ ''_addr'' \<noteq> ''anonfunc''"
proof
  assume "n @ ''_addr'' = ''anonfunc''"
  then have "last (n @ ''_addr'') = last ''anonfunc''"
    by (rule arg_cong)
  then show False by simp
qed

lemma data_pointer_decls_names:
  "d \<in> set (data_pointer_decls b) \<Longrightarrow> declares d \<in> set (data_and_func_names b)"
  by (auto simp: data_pointer_decls_def data_and_func_names_def split: if_splits)

lemma data_symbol_decls_names:
  "d \<in> set (data_symbol_decls b) \<Longrightarrow> declares d \<in> set (data_and_func_names b)"
  by (force simp: data_symbol_decls_def data_and_func_names_def split: if_splits)

lemma func_decls_names:
  "d \<in> set (func_decls b) \<Longrightarrow> d = TypedefAnonfunc \<or> declares d \<in> set (data_and_func_names b)"
  by (auto simp: func_decls_def data_and_func_names_def split: if_splits)

lemma stack_chk_guard_decl_name:
  "d \<in> set (stack_chk_guard_decl b) \<Longrightarrow> declares d = ''__stack_chk_guard''"
  by (auto simp: stack_chk_guard_decl_def split: if_splits)

lemma holder_defs_names:
  "d \<in> set (holder_defs b) \<Longrightarrow> \<exists>m \<in> set (holder_names b). declares d = m @ ''_addr''"
  by (auto simp: holder_defs_list holder_names_def split: if_splits)

lemma addr_slot_decls_form:
  "d \<in> set (addr_slot_decls b) \<Longrightarrow>
     \<exists>m \<in> set (runtime_exported_func_addrs b). d = Var JL_DLLEXPORT AnonfuncPtr (m @ ''_addr'') NoInit"
  by (auto simp: addr_slot_decls_def)

lemma unit_sections:
  "d \<in> set (translation_unit b) \<Longrightarrow>
     d \<in> set (data_pointer_decls b) \<or> d \<in> set (data_symbol_decls b)
     \<or> d \<in> set (stack_chk_guard_decl b) \<or> d \<in> set (func_decls b)
     \<or> d \<in> set (holder_defs b) \<or> d \<in> set (addr_slot_decls b)"
  by (auto simp: translation_unit_def)

text \<open>
  A declaration of an identifier \<open>n_addr\<close> that no data or function list names comes
  from the holders of lines 41 to 47 or from the slots of lines 50 to 52.
\<close>

lemma addr_ident_sections:
  assumes d: "d \<in> set (decls_of (n @ ''_addr'') (translation_unit b))"
    and fresh: "n @ ''_addr'' \<notin> set (data_and_func_names b)"
  shows "d \<in> set (holder_defs b) \<or> d \<in> set (addr_slot_decls b)"
proof -
  from d have u: "d \<in> set (translation_unit b)" and nm: "declares d = n @ ''_addr''"
    by (simp_all add: set_decls_of)
  have "d \<notin> set (data_pointer_decls b)"
    using data_pointer_decls_names [of d b] nm fresh by auto
  moreover have "d \<notin> set (data_symbol_decls b)"
    using data_symbol_decls_names [of d b] nm fresh by auto
  moreover have "d \<notin> set (stack_chk_guard_decl b)"
    using stack_chk_guard_decl_name [of d b] nm addr_suffix_not_guard [of n] by auto
  moreover have "d \<notin> set (func_decls b)"
    using func_decls_names [of d b] nm fresh addr_suffix_not_anonfunc [of n] by auto
  ultimately show ?thesis
    using unit_sections [OF u] by blast
qed


section \<open>The holders of the runtime-exported functions\<close>

text \<open>
  C1. For every name of the runtime-exported list, the header defines the hidden holder
  \<open>name_addr\<close> with the initializer \<^verbatim>\<open>(anonfunc*)&name\<close>: its initial target is the
  address of the function of the same name. Every holder definition of that identifier
  has this initializer; the one exception would be a list that names
  \<^verbatim>\<open>__julia_personality\<close> itself on Windows, where the special-cased definition of
  line 45 has the same identifier.
\<close>

theorem runtime_holder_initial_target:
  assumes "n \<in> set (runtime_exported_funcs b)"
  shows "Var JL_HIDDEN AnonfuncPtr (n @ ''_addr'') (InitAddrOf n) \<in> set (translation_unit b)
       \<and> (\<forall>d \<in> set (decls_of (n @ ''_addr'') (holder_defs b)).
            initial_value d = Some (InitAddrOf n)
            \<or> (OS_WINDOWS b \<and> n = ''__julia_personality''))"
proof
  from assms have "Var JL_HIDDEN AnonfuncPtr (n @ ''_addr'') (InitAddrOf n) \<in> set (holder_defs b)"
    by (simp add: holder_defs_list)
  then show "Var JL_HIDDEN AnonfuncPtr (n @ ''_addr'') (InitAddrOf n) \<in> set (translation_unit b)"
    by (rule holder_in_unit)
next
  show "\<forall>d \<in> set (decls_of (n @ ''_addr'') (holder_defs b)).
          initial_value d = Some (InitAddrOf n) \<or> (OS_WINDOWS b \<and> n = ''__julia_personality'')"
    by (auto simp: set_decls_of holder_defs_list split: if_splits)
qed

theorem runtime_holder_initial_target_witness:
  "''jl_gc_collect'' \<in> set (runtime_exported_funcs posix_build)
   \<and> Var JL_HIDDEN AnonfuncPtr ''jl_gc_collect_addr'' (InitAddrOf ''jl_gc_collect'')
       \<in> set (translation_unit posix_build)
   \<and> map initial_value (decls_of ''jl_gc_collect_addr'' (holder_defs posix_build))
       = [Some (InitAddrOf ''jl_gc_collect'')]"
proof -
  have h: "''jl_gc_collect'' \<in> set (runtime_exported_funcs posix_build)"
    by (simp add: posix_build_def)
  have e: "map initial_value (decls_of ''jl_gc_collect_addr'' (holder_defs posix_build))
       = [Some (InitAddrOf ''jl_gc_collect'')]"
    by (simp add: posix_build_def holder_defs_def)
  from runtime_holder_initial_target [OF h] h e show ?thesis by simp
qed


text \<open>
  C6, as the header has it. For every name \<open>F\<close> of the runtime-exported list, the holder
  \<open>F_addr\<close> is defined with hidden visibility (\<^verbatim>\<open>JL_HIDDEN\<close>), as is every holder
  definition of lines 41 to 47; it is an \<^verbatim>\<open>anonfunc *\<close> without \<^verbatim>\<open>const\<close>, and
  its address \<^verbatim>\<open>&F_addr\<close> is an entry of \<^verbatim>\<open>jl_runtime_exported_func_addrs\<close>.
  When no other list declares the identifier \<open>F_addr\<close>, that is when \<open>F\<close> is not also
  an entry of \<^verbatim>\<open>JL_RUNTIME_EXPORTED_FUNC_ADDRS\<close> and \<open>F_addr\<close> is not itself a name
  of a data or function list, every declaration of \<open>F_addr\<close> in the whole header is
  hidden: the header does not export the holder.
\<close>

theorem runtime_holder_hidden_and_registered:
  assumes "n \<in> set (runtime_exported_funcs b)"
  shows "Var JL_HIDDEN AnonfuncPtr (n @ ''_addr'') (InitAddrOf n) \<in> set (translation_unit b)
       \<and> \<not> exported JL_HIDDEN
       \<and> (\<forall>d \<in> set (holder_defs b). visibility d = Some JL_HIDDEN)
       \<and> Some (AddrOfSlot (n @ ''_addr'')) \<in> set (jl_runtime_exported_func_addrs b)
       \<and> (n \<notin> set (runtime_exported_func_addrs b)
            \<and> n @ ''_addr'' \<notin> set (data_and_func_names b)
          \<longrightarrow> decls_of (n @ ''_addr'') (translation_unit b) \<noteq> []
              \<and> (\<forall>d \<in> set (decls_of (n @ ''_addr'') (translation_unit b)).
                    visibility d = Some JL_HIDDEN))"
proof (intro conjI impI ballI)
  from assms have "Var JL_HIDDEN AnonfuncPtr (n @ ''_addr'') (InitAddrOf n) \<in> set (holder_defs b)"
    by (simp add: holder_defs_list)
  then show m: "Var JL_HIDDEN AnonfuncPtr (n @ ''_addr'') (InitAddrOf n) \<in> set (translation_unit b)"
    by (rule holder_in_unit)
  then have "Var JL_HIDDEN AnonfuncPtr (n @ ''_addr'') (InitAddrOf n)
      \<in> set (decls_of (n @ ''_addr'') (translation_unit b))"
    by (simp add: set_decls_of)
  then show "decls_of (n @ ''_addr'') (translation_unit b) \<noteq> []"
    by auto
  show "\<not> exported JL_HIDDEN" by simp
  from assms show "Some (AddrOfSlot (n @ ''_addr'')) \<in> set (jl_runtime_exported_func_addrs b)"
    by (simp add: runtime_addrs_list)
next
  fix d assume "d \<in> set (holder_defs b)"
  then show "visibility d = Some JL_HIDDEN"
    by (rule holder_defs_hidden)
next
  fix d
  assume dj: "n \<notin> set (runtime_exported_func_addrs b)
      \<and> n @ ''_addr'' \<notin> set (data_and_func_names b)"
    and d: "d \<in> set (decls_of (n @ ''_addr'') (translation_unit b))"
  from dj have "n @ ''_addr'' \<notin> set (data_and_func_names b)" ..
  with d have "d \<in> set (holder_defs b) \<or> d \<in> set (addr_slot_decls b)"
    by (rule addr_ident_sections)
  moreover have "d \<notin> set (addr_slot_decls b)"
  proof
    assume "d \<in> set (addr_slot_decls b)"
    then obtain m where "m \<in> set (runtime_exported_func_addrs b)"
        and "d = Var JL_DLLEXPORT AnonfuncPtr (m @ ''_addr'') NoInit"
      using addr_slot_decls_form by blast
    moreover from d have "declares d = n @ ''_addr''"
      by (simp add: set_decls_of)
    ultimately have "n \<in> set (runtime_exported_func_addrs b)" by simp
    with dj show False by simp
  qed
  ultimately show "visibility d = Some JL_HIDDEN"
    using holder_defs_hidden by blast
qed

theorem runtime_holder_hidden_and_registered_witness:
  "''jl_alloc_string'' \<in> set (runtime_exported_funcs windows_build)
   \<and> ''jl_alloc_string'' \<notin> set (runtime_exported_func_addrs windows_build)
   \<and> ''jl_alloc_string_addr'' \<notin> set (data_and_func_names windows_build)
   \<and> Var JL_HIDDEN AnonfuncPtr ''jl_alloc_string_addr'' (InitAddrOf ''jl_alloc_string'')
       \<in> set (translation_unit windows_build)
   \<and> Some (AddrOfSlot ''jl_alloc_string_addr'') \<in> set (jl_runtime_exported_func_addrs windows_build)
   \<and> decls_of ''jl_alloc_string_addr'' (translation_unit windows_build) \<noteq> []
   \<and> decls_of ''jl_alloc_string_addr'' (translation_unit windows_build)
       = [Var JL_HIDDEN AnonfuncPtr ''jl_alloc_string_addr'' (InitAddrOf ''jl_alloc_string'')]"
proof -
  have h: "''jl_alloc_string'' \<in> set (runtime_exported_funcs windows_build)"
    by (simp add: windows_build_def posix_build_def)
  have a: "''jl_alloc_string'' \<notin> set (runtime_exported_func_addrs windows_build)"
    by (simp add: windows_build_def posix_build_def)
  have f: "''jl_alloc_string'' @ ''_addr'' \<notin> set (data_and_func_names windows_build)"
    by (simp add: windows_build_def posix_build_def data_and_func_names_def)
  have e: "decls_of ''jl_alloc_string_addr'' (translation_unit windows_build)
       = [Var JL_HIDDEN AnonfuncPtr ''jl_alloc_string_addr'' (InitAddrOf ''jl_alloc_string'')]"
    by (simp add: windows_build_def posix_build_def translation_unit_def data_pointer_decls_def
        data_symbol_decls_def stack_chk_guard_decl_def func_decls_def holder_defs_def
        addr_slot_decls_def)
  from runtime_holder_hidden_and_registered [OF h] a f
  have "decls_of (''jl_alloc_string'' @ ''_addr'') (translation_unit windows_build) \<noteq> []"
    by blast
  moreover from runtime_holder_hidden_and_registered [OF h]
  have "Var JL_HIDDEN AnonfuncPtr (''jl_alloc_string'' @ ''_addr'') (InitAddrOf ''jl_alloc_string'')
       \<in> set (translation_unit windows_build)
     \<and> Some (AddrOfSlot (''jl_alloc_string'' @ ''_addr''))
       \<in> set (jl_runtime_exported_func_addrs windows_build)"
    by blast
  ultimately show ?thesis
    using h a f e by simp
qed

text \<open>
  C6 as the specification words it, with \<open>F_addr\<close> an exported symbol, fails: on the
  list of \<open>posix_build\<close> the only declaration of \<^verbatim>\<open>jl_gc_collect_addr\<close> in the
  header is the hidden one.
\<close>

theorem runtime_holder_exported_counterexample:
  "''jl_gc_collect'' \<in> set (runtime_exported_funcs posix_build)
   \<and> map visibility (decls_of ''jl_gc_collect_addr'' (translation_unit posix_build))
       = [Some JL_HIDDEN]
   \<and> \<not> exported JL_HIDDEN"
  by (simp add: posix_build_def translation_unit_def data_pointer_decls_def
        data_symbol_decls_def stack_chk_guard_decl_def func_decls_def holder_defs_def
        addr_slot_decls_def)


section \<open>The pre-declared address slots\<close>

text \<open>
  C7. For every name of \<^verbatim>\<open>JL_RUNTIME_EXPORTED_FUNC_ADDRS\<close> the slot
  \<open>name_addr\<close> is declared \<^verbatim>\<open>JL_DLLEXPORT\<close>, so exported and not hidden, and without
  an initializer, and lines 50 to 52 declare nothing else: the header leaves the slot
  to be filled by others. When no other list declares the identifier \<open>name_addr\<close>,
  that is when \<open>name\<close> has no holder of lines 41 to 47 and \<open>name_addr\<close> is not itself a
  name of a data or function list, this exported declaration without initializer is
  the only declaration of the slot in the whole header.
\<close>

theorem addr_slot_exported_uninitialized:
  assumes "n \<in> set (runtime_exported_func_addrs b)"
  shows "Var JL_DLLEXPORT AnonfuncPtr (n @ ''_addr'') NoInit \<in> set (translation_unit b)
       \<and> exported JL_DLLEXPORT
       \<and> (\<forall>d \<in> set (addr_slot_decls b).
             visibility d = Some JL_DLLEXPORT \<and> initial_value d = Some NoInit)
       \<and> (n \<notin> set (holder_names b) \<and> n @ ''_addr'' \<notin> set (data_and_func_names b)
          \<longrightarrow> decls_of (n @ ''_addr'') (translation_unit b) \<noteq> []
              \<and> (\<forall>d \<in> set (decls_of (n @ ''_addr'') (translation_unit b)).
                    d = Var JL_DLLEXPORT AnonfuncPtr (n @ ''_addr'') NoInit
                    \<and> visibility d = Some JL_DLLEXPORT \<and> initial_value d = Some NoInit))"
proof (intro conjI impI)
  from assms have "Var JL_DLLEXPORT AnonfuncPtr (n @ ''_addr'') NoInit \<in> set (addr_slot_decls b)"
    by (simp add: addr_slot_decls_def)
  then show m: "Var JL_DLLEXPORT AnonfuncPtr (n @ ''_addr'') NoInit \<in> set (translation_unit b)"
    by (simp add: translation_unit_def)
  then have "Var JL_DLLEXPORT AnonfuncPtr (n @ ''_addr'') NoInit
      \<in> set (decls_of (n @ ''_addr'') (translation_unit b))"
    by (simp add: set_decls_of)
  then show "decls_of (n @ ''_addr'') (translation_unit b) \<noteq> []"
    by auto
  show "exported JL_DLLEXPORT" by simp
  show "\<forall>d \<in> set (addr_slot_decls b).
          visibility d = Some JL_DLLEXPORT \<and> initial_value d = Some NoInit"
    by (auto simp: addr_slot_decls_def)
next
  assume dj: "n \<notin> set (holder_names b) \<and> n @ ''_addr'' \<notin> set (data_and_func_names b)"
  show "\<forall>d \<in> set (decls_of (n @ ''_addr'') (translation_unit b)).
          d = Var JL_DLLEXPORT AnonfuncPtr (n @ ''_addr'') NoInit
          \<and> visibility d = Some JL_DLLEXPORT \<and> initial_value d = Some NoInit"
  proof
    fix d assume d: "d \<in> set (decls_of (n @ ''_addr'') (translation_unit b))"
    then have nm: "declares d = n @ ''_addr''"
      by (simp add: set_decls_of)
    from dj have "n @ ''_addr'' \<notin> set (data_and_func_names b)" ..
    with d have "d \<in> set (holder_defs b) \<or> d \<in> set (addr_slot_decls b)"
      by (rule addr_ident_sections)
    moreover have "d \<notin> set (holder_defs b)"
    proof
      assume "d \<in> set (holder_defs b)"
      then obtain m where "m \<in> set (holder_names b)" and "declares d = m @ ''_addr''"
        using holder_defs_names by blast
      with nm have "n \<in> set (holder_names b)" by simp
      with dj show False by simp
    qed
    ultimately have "d \<in> set (addr_slot_decls b)" by simp
    then obtain m where "d = Var JL_DLLEXPORT AnonfuncPtr (m @ ''_addr'') NoInit"
      using addr_slot_decls_form by blast
    with nm have "d = Var JL_DLLEXPORT AnonfuncPtr (n @ ''_addr'') NoInit" by simp
    then show "d = Var JL_DLLEXPORT AnonfuncPtr (n @ ''_addr'') NoInit
        \<and> visibility d = Some JL_DLLEXPORT \<and> initial_value d = Some NoInit"
      by simp
  qed
qed

theorem addr_slot_exported_uninitialized_witness:
  "''jl_box_fast'' \<in> set (runtime_exported_func_addrs windows_build)
   \<and> ''jl_box_fast'' \<notin> set (holder_names windows_build)
   \<and> ''jl_box_fast_addr'' \<notin> set (data_and_func_names windows_build)
   \<and> Var JL_DLLEXPORT AnonfuncPtr ''jl_box_fast_addr'' NoInit \<in> set (translation_unit windows_build)
   \<and> decls_of ''jl_box_fast_addr'' (translation_unit windows_build) \<noteq> []
   \<and> decls_of ''jl_box_fast_addr'' (translation_unit windows_build)
       = [Var JL_DLLEXPORT AnonfuncPtr ''jl_box_fast_addr'' NoInit]"
proof -
  have h: "''jl_box_fast'' \<in> set (runtime_exported_func_addrs windows_build)"
    by (simp add: windows_build_def posix_build_def)
  have a: "''jl_box_fast'' \<notin> set (holder_names windows_build)"
    by (simp add: windows_build_def posix_build_def holder_names_def)
  have f: "''jl_box_fast'' @ ''_addr'' \<notin> set (data_and_func_names windows_build)"
    by (simp add: windows_build_def posix_build_def data_and_func_names_def)
  have e: "decls_of ''jl_box_fast_addr'' (translation_unit windows_build)
       = [Var JL_DLLEXPORT AnonfuncPtr ''jl_box_fast_addr'' NoInit]"
    by (simp add: windows_build_def posix_build_def translation_unit_def data_pointer_decls_def
        data_symbol_decls_def stack_chk_guard_decl_def func_decls_def holder_defs_def
        addr_slot_decls_def)
  from addr_slot_exported_uninitialized [OF h] a f
  have "decls_of (''jl_box_fast'' @ ''_addr'') (translation_unit windows_build) \<noteq> []"
    by blast
  moreover from addr_slot_exported_uninitialized [OF h]
  have "Var JL_DLLEXPORT AnonfuncPtr (''jl_box_fast'' @ ''_addr'') NoInit
       \<in> set (translation_unit windows_build)"
    by blast
  ultimately show ?thesis
    using h a f e by simp
qed


section \<open>The fallback stack guard\<close>

text \<open>
  C5, as the header has it. When \<^verbatim>\<open>HAVE_SSP\<close> is not defined, the fallback guard
  \<^verbatim>\<open>__stack_chk_guard\<close> is declared \<^verbatim>\<open>JL_DLLEXPORT size_t\<close>, without an
  initializer: it is exported, and no declaration of that identifier in the header is
  hidden.
\<close>

theorem stack_chk_guard_fallback_exported:
  assumes "\<not> HAVE_SSP b"
  shows "Var JL_DLLEXPORT SizeT ''__stack_chk_guard'' NoInit \<in> set (translation_unit b)
       \<and> exported JL_DLLEXPORT
       \<and> (\<forall>d \<in> set (decls_of ''__stack_chk_guard'' (translation_unit b)).
             visibility d = Some JL_DLLEXPORT)"
proof (intro conjI ballI)
  from assms show "Var JL_DLLEXPORT SizeT ''__stack_chk_guard'' NoInit \<in> set (translation_unit b)"
    by (simp add: translation_unit_def stack_chk_guard_decl_def)
  show "exported JL_DLLEXPORT" by simp
next
  fix d assume "d \<in> set (decls_of ''__stack_chk_guard'' (translation_unit b))"
  then have d: "d \<in> set (translation_unit b)" and n: "declares d = ''__stack_chk_guard''"
    by (simp_all add: set_decls_of)
  from d consider
      "d \<in> set (data_pointer_decls b @ data_symbol_decls b @ stack_chk_guard_decl b @ addr_slot_decls b)"
    | "d \<in> set (func_decls b)" | "d \<in> set (holder_defs b)"
    by (auto simp: translation_unit_def)
  then show "visibility d = Some JL_DLLEXPORT"
  proof cases
    case 1
    then show ?thesis by (rule outside_holders_exported)
  next
    case 2
    then have "visibility d = Some JL_DLLEXPORT \<or> d = TypedefAnonfunc"
      by (rule func_decls_exported)
    with n show ?thesis by auto
  next
    case 3
    with n show ?thesis using holder_defs_not_guard by blast
  qed
qed

theorem stack_chk_guard_fallback_exported_witness:
  "\<not> HAVE_SSP windows_build
   \<and> Var JL_DLLEXPORT SizeT ''__stack_chk_guard'' NoInit \<in> set (translation_unit windows_build)
   \<and> decls_of ''__stack_chk_guard'' (translation_unit windows_build)
       = [Var JL_DLLEXPORT SizeT ''__stack_chk_guard'' NoInit]"
proof -
  have h: "\<not> HAVE_SSP windows_build"
    by (simp add: windows_build_def posix_build_def)
  have e: "decls_of ''__stack_chk_guard'' (translation_unit windows_build)
       = [Var JL_DLLEXPORT SizeT ''__stack_chk_guard'' NoInit]"
    by (simp add: windows_build_def posix_build_def translation_unit_def data_pointer_decls_def
        data_symbol_decls_def stack_chk_guard_decl_def func_decls_def holder_defs_def
        addr_slot_decls_def)
  from stack_chk_guard_fallback_exported [OF h] h e show ?thesis by blast
qed

text \<open>
  C5 as the specification words it, with the guard of internal visibility, fails: in
  \<open>posix_build\<close>, where \<^verbatim>\<open>HAVE_SSP\<close> is not defined, the one declaration of the
  guard is the exported one.
\<close>

theorem stack_chk_guard_counterexample:
  "\<not> HAVE_SSP posix_build
   \<and> map visibility (decls_of ''__stack_chk_guard'' (translation_unit posix_build))
       = [Some JL_DLLEXPORT]
   \<and> exported JL_DLLEXPORT"
  by (simp add: posix_build_def translation_unit_def data_pointer_decls_def
        data_symbol_decls_def stack_chk_guard_decl_def func_decls_def holder_defs_def
        addr_slot_decls_def)


section \<open>The two registries\<close>

text \<open>
  C2. In the runtime-exported and in the codegen-exported registry, the name table and
  the address table have the same number of entries, the last element of each of the
  four tables is the null sentinel, and before it entry \<open>i\<close> of the names and entry
  \<open>i\<close> of the addresses come from one identifier \<open>n\<close>: the address is
  \<^verbatim>\<open>&n_addr\<close> and the name is \<open>n\<close> (for the codegen registry \<open>n_impl\<close>; for
  the personality routine on Windows its decorated name).
\<close>

theorem registry_tables_parallel:
  "length (jl_runtime_exported_func_names b) = length (jl_runtime_exported_func_addrs b)
   \<and> length (jl_codegen_exported_func_names b) = length (jl_codegen_exported_func_addrs b)
   \<and> last (jl_runtime_exported_func_names b) = None
   \<and> last (jl_runtime_exported_func_addrs b) = None
   \<and> last (jl_codegen_exported_func_names b) = None
   \<and> last (jl_codegen_exported_func_addrs b) = None
   \<and> (\<forall>i < length (jl_runtime_exported_func_names b) - 1. \<exists>n.
         jl_runtime_exported_func_addrs b ! i = Some (AddrOfSlot (n @ ''_addr''))
         \<and> (jl_runtime_exported_func_names b ! i = Some n
            \<or> (OS_WINDOWS b \<and> n = ''__julia_personality''
                \<and> jl_runtime_exported_func_names b ! i = Some ''__julia_personality@16'')))
   \<and> (\<forall>i < length (jl_codegen_exported_func_names b) - 1. \<exists>n.
         jl_codegen_exported_func_addrs b ! i = Some (AddrOfSlot (n @ ''_addr''))
         \<and> jl_codegen_exported_func_names b ! i = Some (n @ ''_impl''))"
proof -
  let ?R = "runtime_exported_funcs b" and ?W = "runtime_exported_funcs_win b"
  let ?A = "runtime_exported_func_addrs b" and ?C = "codegen_exported_funcs b"
  let ?ok = "\<lambda>(x, y). \<exists>n. y = Some (AddrOfSlot (n @ ''_addr''))
      \<and> (x = Some n \<or> (OS_WINDOWS b \<and> n = ''__julia_personality''
                          \<and> x = Some ''__julia_personality@16''))"
  let ?ns = "jl_runtime_exported_func_names b" and ?as = "jl_runtime_exported_func_addrs b"
  let ?cn = "jl_codegen_exported_func_names b" and ?ca = "jl_codegen_exported_func_addrs b"
  have len: "length ?ns = length ?as"
    by (simp add: runtime_names_list runtime_addrs_list)
  have clen: "length ?cn = length ?ca"
    by (simp add: codegen_names_list codegen_addrs_list)
  have lasts: "last ?ns = None" "last ?as = None" "last ?cn = None" "last ?ca = None"
    by (simp_all add: runtime_names_list runtime_addrs_list codegen_names_list codegen_addrs_list)
  have pairs: "\<forall>p \<in> set (butlast (zip ?ns ?as)). ?ok p"
    unfolding runtime_names_list runtime_addrs_list
    by (cases "OS_WINDOWS b") (auto simp: zip_append butlast_append zip_map_map zip_same_conv_map)
  have run: "\<forall>i < length ?ns - 1. \<exists>n. ?as ! i = Some (AddrOfSlot (n @ ''_addr''))
         \<and> (?ns ! i = Some n \<or> (OS_WINDOWS b \<and> n = ''__julia_personality''
                \<and> ?ns ! i = Some ''__julia_personality@16''))"
  proof (intro allI impI)
    fix i assume i: "i < length ?ns - 1"
    then have "butlast (zip ?ns ?as) ! i = (?ns ! i, ?as ! i)"
      using len by (simp add: nth_butlast)
    moreover have "butlast (zip ?ns ?as) ! i \<in> set (butlast (zip ?ns ?as))"
      using i len by (intro nth_mem) simp
    ultimately have "(?ns ! i, ?as ! i) \<in> set (butlast (zip ?ns ?as))"
      by simp
    with pairs have "?ok (?ns ! i, ?as ! i)"
      by (rule bspec)
    then show "\<exists>n. ?as ! i = Some (AddrOfSlot (n @ ''_addr''))
         \<and> (?ns ! i = Some n \<or> (OS_WINDOWS b \<and> n = ''__julia_personality''
                \<and> ?ns ! i = Some ''__julia_personality@16''))"
      by simp
  qed
  have cod: "\<forall>i < length ?cn - 1. \<exists>n. ?ca ! i = Some (AddrOfSlot (n @ ''_addr''))
         \<and> ?cn ! i = Some (n @ ''_impl'')"
    by (auto simp: codegen_names_list codegen_addrs_list nth_append)
  from len clen lasts run cod show ?thesis by blast
qed

theorem registry_tables_parallel_witness:
  "length (jl_runtime_exported_func_names windows_build) = 6
   \<and> length (jl_runtime_exported_func_addrs windows_build) = 6
   \<and> (3::nat) < length (jl_runtime_exported_func_names windows_build) - 1
   \<and> (\<exists>n. jl_runtime_exported_func_addrs windows_build ! 3 = Some (AddrOfSlot (n @ ''_addr''))
         \<and> (jl_runtime_exported_func_names windows_build ! 3 = Some n
            \<or> (OS_WINDOWS windows_build \<and> n = ''__julia_personality''
                \<and> jl_runtime_exported_func_names windows_build ! 3 = Some ''__julia_personality@16'')))
   \<and> (0::nat) < length (jl_codegen_exported_func_names windows_build) - 1
   \<and> (\<exists>n. jl_codegen_exported_func_addrs windows_build ! 0 = Some (AddrOfSlot (n @ ''_addr''))
         \<and> jl_codegen_exported_func_names windows_build ! 0 = Some (n @ ''_impl''))"
proof -
  have n: "length (jl_runtime_exported_func_names windows_build) = 6"
    by (simp add: runtime_names_list windows_build_def posix_build_def)
  have a: "length (jl_runtime_exported_func_addrs windows_build) = 6"
    by (simp add: runtime_addrs_list windows_build_def posix_build_def)
  have i: "(3::nat) < length (jl_runtime_exported_func_names windows_build) - 1"
    using n by simp
  from registry_tables_parallel [of windows_build]
  have all: "\<forall>i < length (jl_runtime_exported_func_names windows_build) - 1. \<exists>n.
         jl_runtime_exported_func_addrs windows_build ! i = Some (AddrOfSlot (n @ ''_addr''))
         \<and> (jl_runtime_exported_func_names windows_build ! i = Some n
            \<or> (OS_WINDOWS windows_build \<and> n = ''__julia_personality''
                \<and> jl_runtime_exported_func_names windows_build ! i = Some ''__julia_personality@16''))"
    by (elim conjE)
  have "\<exists>n. jl_runtime_exported_func_addrs windows_build ! 3 = Some (AddrOfSlot (n @ ''_addr''))
         \<and> (jl_runtime_exported_func_names windows_build ! 3 = Some n
            \<or> (OS_WINDOWS windows_build \<and> n = ''__julia_personality''
                \<and> jl_runtime_exported_func_names windows_build ! 3 = Some ''__julia_personality@16''))"
    by (rule all [rule_format, OF i])
  moreover have c: "(0::nat) < length (jl_codegen_exported_func_names windows_build) - 1"
    by (simp add: codegen_names_list windows_build_def posix_build_def)
  moreover from registry_tables_parallel [of windows_build]
  have call: "\<forall>i < length (jl_codegen_exported_func_names windows_build) - 1. \<exists>n.
         jl_codegen_exported_func_addrs windows_build ! i = Some (AddrOfSlot (n @ ''_addr''))
         \<and> jl_codegen_exported_func_names windows_build ! i = Some (n @ ''_impl'')"
    by (elim conjE)
  have "\<exists>n. jl_codegen_exported_func_addrs windows_build ! 0 = Some (AddrOfSlot (n @ ''_addr''))
         \<and> jl_codegen_exported_func_names windows_build ! 0 = Some (n @ ''_impl'')"
    by (rule call [rule_format, OF c])
  ultimately show ?thesis using n a i by (intro conjI)
qed


text \<open>
  C3. The registries keep the order of the lists. Entry \<open>i\<close> of the runtime-exported
  list is entry \<open>i\<close> of the runtime name and address tables; on Windows entry \<open>j\<close> of
  the Windows list follows at position \<open>length primary + j\<close>, after every primary entry
  and before the sentinel, which is the last element. Entry \<open>i\<close> of the codegen list is
  entry \<open>i\<close> of the codegen tables (that registry has no Windows list), with the
  sentinel right after the last one.
\<close>

theorem registry_order_is_list_order:
  "(\<forall>i < length (runtime_exported_funcs b).
      jl_runtime_exported_func_names b ! i = Some (runtime_exported_funcs b ! i)
      \<and> jl_runtime_exported_func_addrs b ! i
          = Some (AddrOfSlot (runtime_exported_funcs b ! i @ ''_addr'')))
   \<and> (OS_WINDOWS b \<longrightarrow> (\<forall>j < length (runtime_exported_funcs_win b).
      jl_runtime_exported_func_names b ! (length (runtime_exported_funcs b) + j)
          = Some (runtime_exported_funcs_win b ! j)
      \<and> jl_runtime_exported_func_addrs b ! (length (runtime_exported_funcs b) + j)
          = Some (AddrOfSlot (runtime_exported_funcs_win b ! j @ ''_addr''))
      \<and> length (runtime_exported_funcs b) + j < length (jl_runtime_exported_func_names b) - 1))
   \<and> (\<forall>i < length (codegen_exported_funcs b).
      jl_codegen_exported_func_names b ! i = Some (codegen_exported_funcs b ! i @ ''_impl'')
      \<and> jl_codegen_exported_func_addrs b ! i
          = Some (AddrOfSlot (codegen_exported_funcs b ! i @ ''_addr'')))
   \<and> jl_runtime_exported_func_names b ! (length (jl_runtime_exported_func_names b) - 1) = None
   \<and> jl_runtime_exported_func_addrs b ! (length (jl_runtime_exported_func_addrs b) - 1) = None
   \<and> jl_codegen_exported_func_names b ! length (codegen_exported_funcs b) = None
   \<and> jl_codegen_exported_func_addrs b ! length (codegen_exported_funcs b) = None"
proof (intro conjI)
  show "\<forall>i < length (runtime_exported_funcs b).
      jl_runtime_exported_func_names b ! i = Some (runtime_exported_funcs b ! i)
      \<and> jl_runtime_exported_func_addrs b ! i
          = Some (AddrOfSlot (runtime_exported_funcs b ! i @ ''_addr''))"
    by (simp add: runtime_names_list runtime_addrs_list nth_append)
  show "OS_WINDOWS b \<longrightarrow> (\<forall>j < length (runtime_exported_funcs_win b).
      jl_runtime_exported_func_names b ! (length (runtime_exported_funcs b) + j)
          = Some (runtime_exported_funcs_win b ! j)
      \<and> jl_runtime_exported_func_addrs b ! (length (runtime_exported_funcs b) + j)
          = Some (AddrOfSlot (runtime_exported_funcs_win b ! j @ ''_addr''))
      \<and> length (runtime_exported_funcs b) + j < length (jl_runtime_exported_func_names b) - 1)"
    by (simp add: runtime_names_list runtime_addrs_list nth_append)
  show "\<forall>i < length (codegen_exported_funcs b).
      jl_codegen_exported_func_names b ! i = Some (codegen_exported_funcs b ! i @ ''_impl'')
      \<and> jl_codegen_exported_func_addrs b ! i
          = Some (AddrOfSlot (codegen_exported_funcs b ! i @ ''_addr''))"
    by (simp add: codegen_names_list codegen_addrs_list nth_append)
  show "jl_runtime_exported_func_names b ! (length (jl_runtime_exported_func_names b) - 1) = None"
    by (simp add: runtime_names_list nth_append)
  show "jl_runtime_exported_func_addrs b ! (length (jl_runtime_exported_func_addrs b) - 1) = None"
    by (simp add: runtime_addrs_list nth_append)
  show "jl_codegen_exported_func_names b ! length (codegen_exported_funcs b) = None"
    by (simp add: codegen_names_list nth_append)
  show "jl_codegen_exported_func_addrs b ! length (codegen_exported_funcs b) = None"
    by (simp add: codegen_addrs_list nth_append)
qed

theorem registry_order_is_list_order_witness:
  "OS_WINDOWS windows_build
   \<and> (0::nat) < length (runtime_exported_funcs_win windows_build)
   \<and> (1::nat) < length (runtime_exported_funcs windows_build)
   \<and> jl_runtime_exported_func_names windows_build ! 1 = Some ''jl_alloc_string''
   \<and> jl_runtime_exported_func_names windows_build ! 2 = Some ''jl_setjmp''
   \<and> jl_runtime_exported_func_addrs windows_build ! 2 = Some (AddrOfSlot ''jl_setjmp_addr'')
   \<and> jl_codegen_exported_func_names windows_build ! 1 = Some ''jl_init_codegen_impl''"
proof -
  have w: "OS_WINDOWS windows_build"
    by (simp add: windows_build_def)
  have j: "(0::nat) < length (runtime_exported_funcs_win windows_build)"
    by (simp add: windows_build_def posix_build_def)
  have i: "(1::nat) < length (runtime_exported_funcs windows_build)"
    by (simp add: windows_build_def posix_build_def)
  have c: "(1::nat) < length (codegen_exported_funcs windows_build)"
    by (simp add: windows_build_def posix_build_def)
  note t = registry_order_is_list_order [of windows_build]
  from t have r: "jl_runtime_exported_func_names windows_build ! 1
      = Some (runtime_exported_funcs windows_build ! 1)"
    using i by blast
  from t w j have "jl_runtime_exported_func_names windows_build
        ! (length (runtime_exported_funcs windows_build) + 0)
      = Some (runtime_exported_funcs_win windows_build ! 0)
    \<and> jl_runtime_exported_func_addrs windows_build
        ! (length (runtime_exported_funcs windows_build) + 0)
      = Some (AddrOfSlot (runtime_exported_funcs_win windows_build ! 0 @ ''_addr''))"
    by blast
  moreover from t c have "jl_codegen_exported_func_names windows_build ! 1
      = Some (codegen_exported_funcs windows_build ! 1 @ ''_impl'')"
    by blast
  ultimately show ?thesis
    using r w j i by (simp add: windows_build_def posix_build_def numeral_2_eq_2)
qed


text \<open>
  C4. Without its sentinel, the codegen name table is the codegen list with
  \<^verbatim>\<open>_impl\<close> appended to every name, and the runtime name table is the names of the
  runtime-exported functions, of the Windows functions with the decorated name of the
  personality routine, and of the address slots, each as it is written in its list. So
  every codegen registry name ends in \<^verbatim>\<open>_impl\<close>, and no runtime registry name does
  unless a list itself names such a function.
\<close>

theorem impl_suffix_only_on_codegen_names:
  "butlast (jl_codegen_exported_func_names b)
     = map (\<lambda>n. Some (n @ ''_impl'')) (codegen_exported_funcs b)
   \<and> butlast (jl_runtime_exported_func_names b)
     = map Some (runtime_exported_funcs b @
         (if OS_WINDOWS b then runtime_exported_funcs_win b @ [''__julia_personality@16''] else []) @
         runtime_exported_func_addrs b)
   \<and> (\<forall>s. Some s \<in> set (jl_codegen_exported_func_names b) \<longrightarrow> has_impl_suffix s)
   \<and> ((\<forall>n \<in> set (runtime_exported_funcs b)
            \<union> (if OS_WINDOWS b then set (runtime_exported_funcs_win b) else {})
            \<union> set (runtime_exported_func_addrs b). \<not> has_impl_suffix n)
        \<longrightarrow> (\<forall>s. Some s \<in> set (jl_runtime_exported_func_names b) \<longrightarrow> \<not> has_impl_suffix s))"
proof (intro conjI)
  show "butlast (jl_codegen_exported_func_names b)
     = map (\<lambda>n. Some (n @ ''_impl'')) (codegen_exported_funcs b)"
    by (simp add: codegen_names_list)
  show "butlast (jl_runtime_exported_func_names b)
     = map Some (runtime_exported_funcs b @
         (if OS_WINDOWS b then runtime_exported_funcs_win b @ [''__julia_personality@16''] else []) @
         runtime_exported_func_addrs b)"
    by (simp add: runtime_names_list butlast_append)
  show "\<forall>s. Some s \<in> set (jl_codegen_exported_func_names b) \<longrightarrow> has_impl_suffix s"
    by (auto simp: codegen_names_list)
  show "(\<forall>n \<in> set (runtime_exported_funcs b)
            \<union> (if OS_WINDOWS b then set (runtime_exported_funcs_win b) else {})
            \<union> set (runtime_exported_func_addrs b). \<not> has_impl_suffix n)
        \<longrightarrow> (\<forall>s. Some s \<in> set (jl_runtime_exported_func_names b) \<longrightarrow> \<not> has_impl_suffix s)"
    unfolding runtime_names_list by (cases "OS_WINDOWS b") auto
qed

theorem impl_suffix_only_on_codegen_names_witness:
  "Some ''jl_init_codegen_impl'' \<in> set (jl_codegen_exported_func_names windows_build)
   \<and> has_impl_suffix ''jl_init_codegen_impl''
   \<and> Some ''__julia_personality@16'' \<in> set (jl_runtime_exported_func_names windows_build)
   \<and> \<not> has_impl_suffix ''__julia_personality@16''
   \<and> \<not> has_impl_suffix ''jl_gc_collect''"
proof -
  have c: "Some ''jl_init_codegen_impl'' \<in> set (jl_codegen_exported_func_names windows_build)"
    by (simp add: codegen_names_list windows_build_def posix_build_def)
  have p: "Some ''__julia_personality@16'' \<in> set (jl_runtime_exported_func_names windows_build)"
    by (simp add: runtime_names_list windows_build_def posix_build_def)
  have pre: "\<forall>n \<in> set (runtime_exported_funcs windows_build)
            \<union> (if OS_WINDOWS windows_build then set (runtime_exported_funcs_win windows_build) else {})
            \<union> set (runtime_exported_func_addrs windows_build). \<not> has_impl_suffix n"
    by (simp add: windows_build_def posix_build_def)
  note t = impl_suffix_only_on_codegen_names [of windows_build]
  from t c have "has_impl_suffix ''jl_init_codegen_impl''" by blast
  moreover from t pre p have "\<not> has_impl_suffix ''__julia_personality@16''" by blast
  moreover have "\<not> has_impl_suffix ''jl_gc_collect''" by simp
  ultimately show ?thesis using c p by blast
qed


section \<open>The personality routine on Windows\<close>

text \<open>
  C8. On Windows the holder \<^verbatim>\<open>__julia_personality_addr\<close> is defined with the
  explicit initializer \<^verbatim>\<open>NULL\<close>; its entry in the runtime name table, right after
  the Windows list, is the literal \<^verbatim>\<open>"__julia_personality@16"\<close> and not the
  stringized name, and the address table has \<^verbatim>\<open>&__julia_personality_addr\<close> at the
  same index.
\<close>

theorem windows_personality_special_case:
  assumes "OS_WINDOWS b"
  shows "Var JL_HIDDEN AnonfuncPtr ''__julia_personality_addr'' InitNULL \<in> set (translation_unit b)
       \<and> Func JL_DLLEXPORT True ''__julia_personality'' \<in> set (translation_unit b)
       \<and> jl_runtime_exported_func_names b
            ! (length (runtime_exported_funcs b) + length (runtime_exported_funcs_win b))
          = Some ''__julia_personality@16''
       \<and> jl_runtime_exported_func_names b
            ! (length (runtime_exported_funcs b) + length (runtime_exported_funcs_win b))
          \<noteq> Some ''__julia_personality''
       \<and> jl_runtime_exported_func_addrs b
            ! (length (runtime_exported_funcs b) + length (runtime_exported_funcs_win b))
          = Some (AddrOfSlot ''__julia_personality_addr'')"
proof (intro conjI)
  from assms have "Var JL_HIDDEN AnonfuncPtr ''__julia_personality_addr'' InitNULL \<in> set (holder_defs b)"
    by (simp add: holder_defs_list)
  then show "Var JL_HIDDEN AnonfuncPtr ''__julia_personality_addr'' InitNULL \<in> set (translation_unit b)"
    by (rule holder_in_unit)
  from assms show "Func JL_DLLEXPORT True ''__julia_personality'' \<in> set (translation_unit b)"
    by (simp add: translation_unit_def func_decls_def)
  from assms show n: "jl_runtime_exported_func_names b
            ! (length (runtime_exported_funcs b) + length (runtime_exported_funcs_win b))
          = Some ''__julia_personality@16''"
    by (simp add: runtime_names_list nth_append)
  show "jl_runtime_exported_func_names b
            ! (length (runtime_exported_funcs b) + length (runtime_exported_funcs_win b))
          \<noteq> Some ''__julia_personality''"
    unfolding n by simp
  from assms show "jl_runtime_exported_func_addrs b
            ! (length (runtime_exported_funcs b) + length (runtime_exported_funcs_win b))
          = Some (AddrOfSlot ''__julia_personality_addr'')"
    by (simp add: runtime_addrs_list nth_append)
qed

theorem windows_personality_special_case_witness:
  "OS_WINDOWS windows_build
   \<and> Var JL_HIDDEN AnonfuncPtr ''__julia_personality_addr'' InitNULL
       \<in> set (translation_unit windows_build)
   \<and> jl_runtime_exported_func_names windows_build ! 3 = Some ''__julia_personality@16''
   \<and> jl_runtime_exported_func_addrs windows_build ! 3 = Some (AddrOfSlot ''__julia_personality_addr'')"
proof -
  have h: "OS_WINDOWS windows_build"
    by (simp add: windows_build_def)
  have k: "length (runtime_exported_funcs windows_build)
           + length (runtime_exported_funcs_win windows_build) = 3"
    by (simp add: windows_build_def posix_build_def)
  from windows_personality_special_case [OF h] h show ?thesis
    unfolding k by blast
qed


section \<open>The holders of the codegen-exported functions\<close>

text \<open>
  C9. Every name of the codegen-exported list also gets a hidden holder \<open>name_addr\<close>,
  initialized to the address of the function under its own name, not under
  \<open>name_impl\<close>. The codegen address table runs parallel to the name table and ends in
  the null sentinel, so the registry pairs the string \<open>name_impl\<close> with a holder whose
  initial target is \<open>name\<close>.
\<close>

theorem codegen_holder_targets_unsuffixed_name:
  assumes "i < length (codegen_exported_funcs b)"
  shows "Var JL_HIDDEN AnonfuncPtr (codegen_exported_funcs b ! i @ ''_addr'')
           (InitAddrOf (codegen_exported_funcs b ! i)) \<in> set (translation_unit b)
       \<and> InitAddrOf (codegen_exported_funcs b ! i)
           \<noteq> InitAddrOf (codegen_exported_funcs b ! i @ ''_impl'')
       \<and> jl_codegen_exported_func_names b ! i = Some (codegen_exported_funcs b ! i @ ''_impl'')
       \<and> jl_codegen_exported_func_addrs b ! i
           = Some (AddrOfSlot (codegen_exported_funcs b ! i @ ''_addr''))
       \<and> length (jl_codegen_exported_func_names b) = length (codegen_exported_funcs b) + 1
       \<and> length (jl_codegen_exported_func_addrs b) = length (codegen_exported_funcs b) + 1
       \<and> last (jl_codegen_exported_func_names b) = None
       \<and> last (jl_codegen_exported_func_addrs b) = None"
proof (intro conjI)
  from assms have "codegen_exported_funcs b ! i \<in> set (codegen_exported_funcs b)"
    by (rule nth_mem)
  then have "Var JL_HIDDEN AnonfuncPtr (codegen_exported_funcs b ! i @ ''_addr'')
           (InitAddrOf (codegen_exported_funcs b ! i)) \<in> set (holder_defs b)"
    by (simp add: holder_defs_list)
  then show "Var JL_HIDDEN AnonfuncPtr (codegen_exported_funcs b ! i @ ''_addr'')
           (InitAddrOf (codegen_exported_funcs b ! i)) \<in> set (translation_unit b)"
    by (rule holder_in_unit)
  show "InitAddrOf (codegen_exported_funcs b ! i)
           \<noteq> InitAddrOf (codegen_exported_funcs b ! i @ ''_impl'')"
    by simp
  from assms show "jl_codegen_exported_func_names b ! i = Some (codegen_exported_funcs b ! i @ ''_impl'')"
    by (simp add: codegen_names_list nth_append)
  from assms show "jl_codegen_exported_func_addrs b ! i
           = Some (AddrOfSlot (codegen_exported_funcs b ! i @ ''_addr''))"
    by (simp add: codegen_addrs_list nth_append)
  show "length (jl_codegen_exported_func_names b) = length (codegen_exported_funcs b) + 1"
    by (simp add: codegen_names_list)
  show "length (jl_codegen_exported_func_addrs b) = length (codegen_exported_funcs b) + 1"
    by (simp add: codegen_addrs_list)
  show "last (jl_codegen_exported_func_names b) = None"
    by (simp add: codegen_names_list)
  show "last (jl_codegen_exported_func_addrs b) = None"
    by (simp add: codegen_addrs_list)
qed

theorem codegen_holder_targets_unsuffixed_name_witness:
  "(0::nat) < length (codegen_exported_funcs posix_build)
   \<and> Var JL_HIDDEN AnonfuncPtr ''jl_dump_llvm_asm_addr'' (InitAddrOf ''jl_dump_llvm_asm'')
       \<in> set (translation_unit posix_build)
   \<and> jl_codegen_exported_func_names posix_build ! 0 = Some ''jl_dump_llvm_asm_impl''
   \<and> jl_codegen_exported_func_addrs posix_build ! 0 = Some (AddrOfSlot ''jl_dump_llvm_asm_addr'')"
proof -
  have h: "(0::nat) < length (codegen_exported_funcs posix_build)"
    by (simp add: posix_build_def)
  have e: "codegen_exported_funcs posix_build ! 0 = ''jl_dump_llvm_asm''"
    by (simp add: posix_build_def)
  from codegen_holder_targets_unsuffixed_name [OF h] h show ?thesis
    unfolding e by simp
qed


section \<open>The address slots in the runtime registry\<close>

text \<open>
  C10. On either platform the runtime tables end with the entries of
  \<^verbatim>\<open>JL_RUNTIME_EXPORTED_FUNC_ADDRS\<close> followed by the null sentinel: they come after
  the runtime-exported entries and, on Windows, after the Windows list and the
  personality routine. The slots themselves are declared whatever the platform.
\<close>

theorem addr_slots_registered_on_every_platform:
  "drop (length (runtime_exported_funcs b)
          + (if OS_WINDOWS b then length (runtime_exported_funcs_win b) + 1 else 0))
     (jl_runtime_exported_func_names b)
     = map Some (runtime_exported_func_addrs b) @ [None]
   \<and> drop (length (runtime_exported_funcs b)
          + (if OS_WINDOWS b then length (runtime_exported_funcs_win b) + 1 else 0))
     (jl_runtime_exported_func_addrs b)
     = map (\<lambda>n. Some (AddrOfSlot (n @ ''_addr''))) (runtime_exported_func_addrs b) @ [None]
   \<and> take (length (runtime_exported_funcs b)
          + (if OS_WINDOWS b then length (runtime_exported_funcs_win b) + 1 else 0))
     (jl_runtime_exported_func_names b)
     = map Some (runtime_exported_funcs b) @
       (if OS_WINDOWS b
        then map Some (runtime_exported_funcs_win b) @ [Some ''__julia_personality@16'']
        else [])
   \<and> addr_slot_decls b
     = map (\<lambda>n. Var JL_DLLEXPORT AnonfuncPtr (n @ ''_addr'') NoInit) (runtime_exported_func_addrs b)"
  by (simp add: runtime_names_list runtime_addrs_list addr_slot_decls_def)

end
